theory Spec2Isabelle
  imports Complex_Main
begin

section \<open>The target parameterization of \<open>rave/iksolver.h\<close>\<close>

text \<open>
  \<open>dReal\<close> is OpenRAVE's configurable floating-point type. The setters and getters of
  \<open>IkSolverBase::Parameterization\<close> only copy such values, so the component type is left
  polymorphic.

  \<open>Vector\<close>, \<open>Transform\<close> and \<open>RAY\<close> are declared outside the sources at hand. A
  \<open>Vector\<close> has the four components \<open>x\<close>, \<open>y\<close>, \<open>z\<close>, \<open>w\<close> (here \<open>vec_x\<close> to \<open>vec_w\<close>); a \<open>Transform\<close> is the pair of members
  \<open>rot\<close> (a quaternion) and \<open>trans\<close> that the header reads and writes; a \<open>RAY\<close> is the
  pair of members \<open>pos\<close> and \<open>dir\<close> that \<open>SetRay\<close> reads.
\<close>

record 'r Vector =
  vec_x :: 'r
  vec_y :: 'r
  vec_z :: 'r
  vec_w :: 'r

record 'r Transform =
  rot :: "'r Vector"
  trans :: "'r Vector"

record 'r RAY =
  pos :: "'r Vector"
  dir :: "'r Vector"

text \<open>
  Modelled from the spec: the two-argument constructor \<open>RAY(pos, dir)\<close> used by \<open>GetRay\<close>
  is declared outside the sources at hand; it takes the origin first and the direction second
  (the spec's "direction into the rotation slot and origin into the translation slot").
\<close>

definition RAY_ctor :: "'r Vector \<Rightarrow> 'r Vector \<Rightarrow> 'r RAY" where
  "RAY_ctor p d = \<lparr>pos = p, dir = d\<rparr>"

datatype Type =
    Type_None
  | Type_Transform6D
  | Type_Rotation3D
  | Type_Translation3D
  | Type_Direction2D
  | Type_Ray4D

text \<open>The enumerators' declared integer values.\<close>

fun Type_value :: "Type \<Rightarrow> int" where
  "Type_value Type_None = 0"
| "Type_value Type_Transform6D = 1"
| "Type_value Type_Rotation3D = 2"
| "Type_value Type_Translation3D = 3"
| "Type_value Type_Direction2D = 4"
| "Type_value Type_Ray4D = 5"

record 'r Parameterization =
  p_transform :: "'r Transform"
  p_type :: Type

text \<open>
  The setters are member functions that assign to \<open>_type\<close> and to \<open>_transform\<close> (or to
  one member of it); here each takes the object's state and returns the updated state.
\<close>

definition SetTransform :: "'r Transform \<Rightarrow> 'r Parameterization \<Rightarrow> 'r Parameterization" where
  "SetTransform t p = p\<lparr>p_type := Type_Transform6D, p_transform := t\<rparr>"

definition SetRotation :: "'r Vector \<Rightarrow> 'r Parameterization \<Rightarrow> 'r Parameterization" where
  "SetRotation quaternion p =
     p\<lparr>p_type := Type_Rotation3D, p_transform := (p_transform p)\<lparr>rot := quaternion\<rparr>\<rparr>"

definition SetTranslation :: "'r Vector \<Rightarrow> 'r Parameterization \<Rightarrow> 'r Parameterization" where
  "SetTranslation tr p =
     p\<lparr>p_type := Type_Translation3D, p_transform := (p_transform p)\<lparr>trans := tr\<rparr>\<rparr>"

definition SetDirection :: "'r Vector \<Rightarrow> 'r Parameterization \<Rightarrow> 'r Parameterization" where
  "SetDirection d p =
     p\<lparr>p_type := Type_Direction2D, p_transform := (p_transform p)\<lparr>rot := d\<rparr>\<rparr>"

definition SetRay :: "'r RAY \<Rightarrow> 'r Parameterization \<Rightarrow> 'r Parameterization" where
  "SetRay ray p =
     p\<lparr>p_type := Type_Ray4D,
       p_transform := (p_transform p)\<lparr>trans := pos ray, rot := dir ray\<rparr>\<rparr>"

definition GetType :: "'r Parameterization \<Rightarrow> Type" where
  "GetType p = p_type p"

definition GetTransform :: "'r Parameterization \<Rightarrow> 'r Transform" where
  "GetTransform p = p_transform p"

definition GetRotation :: "'r Parameterization \<Rightarrow> 'r Vector" where
  "GetRotation p = rot (p_transform p)"

definition GetTranslation :: "'r Parameterization \<Rightarrow> 'r Vector" where
  "GetTranslation p = trans (p_transform p)"

definition GetDirection :: "'r Parameterization \<Rightarrow> 'r Vector" where
  "GetDirection p = rot (p_transform p)"

definition GetRay :: "'r Parameterization \<Rightarrow> 'r RAY" where
  "GetRay p = RAY_ctor (trans (p_transform p)) (rot (p_transform p))"

text \<open>
  The three constructors. The default constructor initialises \<open>_type\<close> only; the other two
  run a setter in their body. In each case \<open>p0\<close> is the state of the members before the
  constructor's initialiser list and body run (the default-constructed \<open>_transform\<close> and a
  not yet initialised \<open>_type\<close>).
\<close>

definition Parameterization_default :: "'r Parameterization \<Rightarrow> 'r Parameterization" where
  "Parameterization_default p0 = p0\<lparr>p_type := Type_None\<rparr>"

definition Parameterization_of_Transform ::
  "'r Transform \<Rightarrow> 'r Parameterization \<Rightarrow> 'r Parameterization" where
  "Parameterization_of_Transform t p0 = SetTransform t p0"

definition Parameterization_of_RAY ::
  "'r RAY \<Rightarrow> 'r Parameterization \<Rightarrow> 'r Parameterization" where
  "Parameterization_of_RAY r p0 = SetRay r p0"


section \<open>Input streams and C strings\<close>

text \<open>
  The factories read their arguments from a \<open>std::istream\<close>. A stream is the text not yet
  consumed together with its fail state; \<open>!!sinput\<close> is \<open>\<not> failed sinput\<close>.
\<close>

record istream =
  buf :: string
  failed :: bool

definition isspace :: "char \<Rightarrow> bool" where
  "isspace c = (c = CHR '' '' \<or> c = CHR 0x09 \<or> c = CHR 0x0A \<or> c = CHR 0x0B
                \<or> c = CHR 0x0C \<or> c = CHR 0x0D)"

text \<open>\<open>::tolower\<close> in the C locale: the 26 upper-case letters change, nothing else does.\<close>

definition tolower :: "char \<Rightarrow> char" where
  "tolower c =
     (case map_of (zip ''ABCDEFGHIJKLMNOPQRSTUVWXYZ'' ''abcdefghijklmnopqrstuvwxyz'') c of
        Some l \<Rightarrow> l
      | None \<Rightarrow> c)"

text \<open>
  \<open>stream >> str\<close> for a \<open>std::string\<close>: nothing happens on a failed stream; leading white
  space is skipped; at the end of the text the stream fails and \<open>str\<close> keeps its value;
  otherwise \<open>str\<close> becomes the characters up to the next white space.
\<close>

definition extract_string :: "istream \<Rightarrow> string \<Rightarrow> istream \<times> string" where
  "extract_string s str =
     (if failed s then (s, str)
      else
        let b = dropWhile isspace (buf s) in
        if b = [] then (\<lparr>buf = [], failed = True\<rparr>, str)
        else (\<lparr>buf = dropWhile (\<lambda>c. \<not> isspace c) b, failed = False\<rparr>,
              takeWhile (\<lambda>c. \<not> isspace c) b))"

text \<open>
  \<open>dReal\<close> values that take part in arithmetic or parsing are modelled as real numbers; the
  rounding of the machine format is not modelled.

  \<open>stream >> value\<close> for a \<open>dReal\<close>: nothing happens on a failed stream; leading white space
  is skipped; at the end of the text the stream fails and \<open>value\<close> keeps its value. Otherwise
  the standard library's number parser runs on the remaining text. That parser is not part of
  the repository and is a parameter \<open>num_get\<close>: from the old value and the text it gives the
  value stored, the text left, and whether the parse succeeded.
\<close>

type_synonym dReal = real

type_synonym num_get = "dReal \<Rightarrow> string \<Rightarrow> dReal \<times> string \<times> bool"

definition extract_dReal :: "num_get \<Rightarrow> istream \<Rightarrow> dReal \<Rightarrow> istream \<times> dReal" where
  "extract_dReal ng s v =
     (if failed s then (s, v)
      else
        let b = dropWhile isspace (buf s) in
        if b = [] then (\<lparr>buf = [], failed = True\<rparr>, v)
        else (case ng v b of (v', rest, ok) \<Rightarrow> (\<lparr>buf = rest, failed = \<not> ok\<rparr>, v')))"


section \<open>The plugin factories\<close>

text \<open>
  The enumeration of interface kinds (\<open>InterfaceType\<close>, called \<open>PluginType\<close> in
  \<open>rmanipulation.cpp\<close>) is declared outside the sources at hand. The factories name two of
  its enumerators; \<open>PT_other n\<close> stands for each remaining one.
\<close>

datatype InterfaceType =
    PT_ProblemInstance
  | PT_InverseKinematicsSolver
  | PT_other nat

type_synonym PluginType = InterfaceType

text \<open>
  The mechanisms whose analytic kernels \<open>ikfastsolvers.cpp\<close> includes, one namespace each.
  What a kernel's generated header reports is not among the sources and is the parameter
  \<open>K\<close> of the factory.
\<close>

datatype mechanism =
    barrettwam | pa10 | puma | pr2_head | pr2_head_torso | pr2_leftarm | pr2_leftarm_torso
  | pr2_rightarm | pr2_rightarm_torso | schunk_lwa3 | katana5d

record kernel =
  getNumFreeParameters :: nat
  getFreeParameters :: "nat \<Rightarrow> int"
  getNumJoints :: int
  getIKType :: int
  getKinematicsHash :: string

text \<open>
  The objects the factories construct, each with the arguments of its constructor. An
  environment pointer is \<open>'env option\<close>, \<open>None\<close> the null pointer; an interface pointer is
  an \<open>Interface option\<close> in the same way. \<open>'lib\<close> is a solver that
  \<open>IKFastProblem::CreateIkSolver\<close> finds among the loaded libraries.
\<close>

record 'env IkFastSolver_args =
  ik_fn :: mechanism
  vfree :: "int list"
  fFreeInc :: dReal
  nTotalJoints :: int
  iktype :: int
  kinematicshash :: string
  penv :: "'env option"

datatype ('env, 'lib) Interface =
    IkFastSolver "'env IkFastSolver_args"
  | IKFastProblem "'env option"
  | Library_IkSolver 'lib
  | BaseManipulation "'env option"
  | TaskManipulation "'env option"
  | TaskCagingProblem "'env option"
  | VisualFeedbackProblem "'env option"

text \<open>
  The block that every mechanism-specific branch of \<open>CreateInterfaceValidated\<close> repeats:
  copy the kernel's free-parameter indices into \<open>vfree\<close> and construct the solver.
\<close>

definition new_IkFastSolver ::
  "(mechanism \<Rightarrow> kernel) \<Rightarrow> mechanism \<Rightarrow> dReal \<Rightarrow> 'env option \<Rightarrow> ('env, 'lib) Interface" where
  "new_IkFastSolver K m freeinc env =
     IkFastSolver
       \<lparr>ik_fn = m,
        vfree = map (getFreeParameters (K m)) [0 ..< getNumFreeParameters (K m)],
        fFreeInc = freeinc,
        nTotalJoints = getNumJoints (K m),
        iktype = getIKType (K m),
        kinematicshash = getKinematicsHash (K m),
        penv = env\<rparr>"

text \<open>
  \<open>CreateInterfaceValidated\<close> of \<open>ikfastsolvers.cpp\<close>. \<open>CIS\<close> is
  \<open>IKFastProblem::CreateIkSolver\<close>, which is not among the sources. The stream is passed by
  reference, so the result is the interface pointer together with the stream as it is left.
\<close>

definition CreateInterfaceValidated ::
  "num_get \<Rightarrow> (string \<Rightarrow> dReal \<Rightarrow> 'env option \<Rightarrow> 'lib option) \<Rightarrow> (mechanism \<Rightarrow> kernel) \<Rightarrow>
   InterfaceType \<Rightarrow> string \<Rightarrow> istream \<Rightarrow> 'env option \<Rightarrow> ('env, 'lib) Interface option \<times> istream"
  where
  "CreateInterfaceValidated ng CIS K type interfacename sinput env =
     (let freeinc = 0.04 in
      case type of
        PT_InverseKinematicsSolver \<Rightarrow>
          if interfacename = ''ikfast'' then
            (case extract_string sinput [] of (s1, ikfastname) \<Rightarrow>
               if \<not> failed s1 then
                 (case extract_dReal ng s1 freeinc of (s2, freeinc') \<Rightarrow>
                    (case CIS ikfastname freeinc' env of
                       Some psolver \<Rightarrow> (Some (Library_IkSolver psolver), s2)
                     | None \<Rightarrow> (None, s2)))
               else (None, s1))
          else
            (case extract_dReal ng sinput freeinc of (s1, freeinc') \<Rightarrow>
               if interfacename = ''wam7ikfast'' then
                 (Some (new_IkFastSolver K barrettwam freeinc' env), s1)
               else if interfacename = ''pa10ikfast'' then
                 (Some (new_IkFastSolver K pa10 freeinc' env), s1)
               else if interfacename = ''pumaikfast'' then
                 (Some (new_IkFastSolver K puma freeinc' env), s1)
               else if interfacename = ''ikfast_pr2_head'' then
                 (Some (new_IkFastSolver K pr2_head freeinc' env), s1)
               else if interfacename = ''ikfast_pr2_head_torso'' then
                 (Some (new_IkFastSolver K pr2_head_torso freeinc' env), s1)
               else if interfacename = ''ikfast_pr2_rightarm'' then
                 (Some (new_IkFastSolver K pr2_rightarm freeinc' env), s1)
               else if interfacename = ''ikfast_pr2_rightarm_torso'' then
                 (Some (new_IkFastSolver K pr2_rightarm_torso freeinc' env), s1)
               else if interfacename = ''ikfast_pr2_leftarm'' then
                 (Some (new_IkFastSolver K pr2_leftarm freeinc' env), s1)
               else if interfacename = ''ikfast_pr2_leftarm_torso'' then
                 (Some (new_IkFastSolver K pr2_leftarm_torso freeinc' env), s1)
               else if interfacename = ''ikfast_schunk_lwa3'' then
                 (Some (new_IkFastSolver K schunk_lwa3 freeinc' env), s1)
               else if interfacename = ''ikfast_katana5d'' then
                 (Some (new_IkFastSolver K katana5d freeinc' env), s1)
               else (None, s1))
      | PT_ProblemInstance \<Rightarrow>
          if interfacename = ''ikfast'' then (Some (IKFastProblem env), sinput)
          else (None, sinput)
      | PT_other n \<Rightarrow> (None, sinput))"

text \<open>
  \<open>PLUGININFO::interfacenames\<close> maps an interface kind to the list of names registered for
  it; \<open>push_back\<close> appends to the list of one kind.
\<close>

type_synonym PLUGININFO = "InterfaceType \<Rightarrow> string list"

definition push_back :: "PLUGININFO \<Rightarrow> InterfaceType \<Rightarrow> string \<Rightarrow> PLUGININFO" where
  "push_back info t name = info (t := info t @ [name])"

definition GetPluginAttributesValidated :: "PLUGININFO \<Rightarrow> PLUGININFO" where
  "GetPluginAttributesValidated info =
     foldl (\<lambda>i (t, name). push_back i t name) info
       [(PT_ProblemInstance, ''ikfast''),
        (PT_InverseKinematicsSolver, ''ikfast''),
        (PT_InverseKinematicsSolver, ''wam7ikfast''),
        (PT_InverseKinematicsSolver, ''pa10ikfast''),
        (PT_InverseKinematicsSolver, ''pumaikfast''),
        (PT_InverseKinematicsSolver, ''ikfast_pr2_head''),
        (PT_InverseKinematicsSolver, ''ikfast_pr2_head_torso''),
        (PT_InverseKinematicsSolver, ''ikfast_pr2_rightarm''),
        (PT_InverseKinematicsSolver, ''ikfast_pr2_rightarm_torso''),
        (PT_InverseKinematicsSolver, ''ikfast_pr2_leftarm''),
        (PT_InverseKinematicsSolver, ''ikfast_pr2_leftarm_torso''),
        (PT_InverseKinematicsSolver, ''ikfast_schunk_lwa3''),
        (PT_InverseKinematicsSolver, ''ikfast_katana5d'')]"

text \<open>
  \<open>CreateInterface\<close> of \<open>rmanipulation.cpp\<close>. \<open>RaveGetInterfaceHash\<close> is not among the
  sources and is a parameter. \<open>strcmp\<close> is non-zero exactly when the two C strings differ.
  The \<open>throw\<close> is the \<open>Inl\<close> branch of the result.
\<close>

datatype exn = openrave_exception string

definition CreateInterface ::
  "(PluginType \<Rightarrow> string) \<Rightarrow> PluginType \<Rightarrow> string \<Rightarrow> string \<Rightarrow> 'env option \<Rightarrow>
   exn + ('env, 'lib) Interface option" where
  "CreateInterface RaveGetInterfaceHash type name pluginhash env =
     (if pluginhash \<noteq> RaveGetInterfaceHash type then Inl (openrave_exception ''bad plugin hash'')
      else if env = None then Inr None
      else
        let interfacename =
              map tolower (snd (extract_string \<lparr>buf = name, failed = False\<rparr> []))
        in case type of
             PT_ProblemInstance \<Rightarrow>
               if interfacename = ''basemanipulation'' then Inr (Some (BaseManipulation env))
               else if interfacename = ''taskmanipulation'' then
                 Inr (Some (TaskManipulation env))
               else if interfacename = ''taskcaging'' then Inr (Some (TaskCagingProblem env))
               else if interfacename = ''visualfeedback'' then
                 Inr (Some (VisualFeedbackProblem env))
               else Inr None
           | PT_InverseKinematicsSolver \<Rightarrow> Inr None
           | PT_other n \<Rightarrow> Inr None)"

text \<open>
  \<open>GetPluginAttributes\<close> of \<open>rmanipulation.cpp\<close>: \<open>pinfo\<close> is a pointer (\<open>None\<close> when
  null), the argument \<open>size\<close> (here \<open>sz\<close>) must equal \<open>sizeof(PLUGININFO)\<close>, here the parameter \<open>sizeof_PLUGININFO\<close>.
  The result is the returned flag and the structure pointed to, as it is left.
\<close>

definition GetPluginAttributes ::
  "int \<Rightarrow> PLUGININFO option \<Rightarrow> int \<Rightarrow> bool \<times> PLUGININFO option" where
  "GetPluginAttributes sizeof_PLUGININFO pinfo sz =
     (case pinfo of
        None \<Rightarrow> (False, None)
      | Some info \<Rightarrow>
          if sz \<noteq> sizeof_PLUGININFO then (False, Some info)
          else
            (True,
             Some (foldl (\<lambda>i name. push_back i PT_ProblemInstance name) info
                     [''BaseManipulation'', ''TaskManipulation'', ''TaskCaging'',
                      ''VisualFeedback''])))"

text \<open>
  The names each plugin registers for a kind, starting from an empty \<open>PLUGININFO\<close>.
\<close>

definition ikfastsolvers_names :: "InterfaceType \<Rightarrow> string list" where
  "ikfastsolvers_names t = GetPluginAttributesValidated (\<lambda>_. []) t"

definition rmanipulation_names :: "InterfaceType \<Rightarrow> string list" where
  "rmanipulation_names t =
     (case snd (GetPluginAttributes 0 (Some (\<lambda>_. [])) 0) of
        Some info \<Rightarrow> info t
      | None \<Rightarrow> [])"

text \<open>
  A request is the text of the whole key. \<open>rmanipulation\<close> compares the first word of the
  request, lower-cased, with the lower-case spelling of a name; \<open>request_matches\<close> is that
  comparison against a registered name.
\<close>

definition first_word :: "string \<Rightarrow> string" where
  "first_word name = takeWhile (\<lambda>c. \<not> isspace c) (dropWhile isspace name)"

definition request_matches :: "string \<Rightarrow> string \<Rightarrow> bool" where
  "request_matches name registered = (map tolower (first_word name) = map tolower registered)"

text \<open>
  A key omits the increment when nothing but white space is left in the stream (or the
  stream has already failed) at the point where the factory reads the number.
\<close>

definition omits_number :: "istream \<Rightarrow> bool" where
  "omits_number s = (failed s \<or> list_all isspace (buf s))"


section \<open>The solving contract, modelled from the specification\<close>

text \<open>
  \<open>rave/iksolver.h\<close> declares \<open>Init\<close>, \<open>GetFreeParameters\<close> and the four \<open>Solve\<close>
  overloads as pure virtual functions; the class that implements them is not among the sources.
  The definitions of this section are therefore written from sections 3, 4 and 7 of the
  specification. Joint values, free values and the increment are real numbers.
\<close>

type_synonym Configuration = "real list"

type_synonym FreeParameterVector = "real list"

text \<open>
  Modelled from the spec: the analytic kernel of section 4.2, an external collaborator. It
  reports \<open>numJoints\<close>, \<open>numFreeParameters\<close>, \<open>ikType\<close> and the kinematics identity hash,
  and \<open>kernel_solve\<close> gives zero or more candidate configurations for a target and a
  free-parameter vector.
\<close>

record AnalyticKernel =
  numJoints :: nat
  numFreeParameters :: nat
  ikType :: Type
  kinematicsIdentityHash :: string
  kernel_solve :: "real Parameterization \<Rightarrow> FreeParameterVector \<Rightarrow> Configuration list"

text \<open>
  Modelled from the spec: a controllable joint of the manipulator with its declared range
  \<open>[lower, upper]\<close>; \<open>period\<close> is \<open>Some P\<close> for a revolute joint whose values are compared
  modulo \<open>P\<close> when ranking (section 4.5, step 3).
\<close>

record Joint =
  lower :: real
  upper :: real
  period :: "real option"

text \<open>
  Modelled from the spec: the manipulator a solver is bound to (section 3, MechanismBinding):
  its ordered chain of controllable joints, its redundancy count and the kinematics hash it
  computes. The controllable joint count is \<open>length (joints M)\<close>.
\<close>

record Manipulator =
  joints :: "Joint list"
  redundancyCount :: nat
  kinematicsHash :: string

text \<open>
  Modelled from the spec: the points of one axis of the grid of section 4.3, in increasing
  order: the multiples of the increment inside \<open>[0, 1]\<close>, and the single point \<open>0\<close> when the
  increment is \<open>1\<close> or more ("values \<open>\<ge> 1\<close> degenerate to a single-point grid at \<open>0\<close> for
  every axis").
\<close>

definition axis_points :: "real \<Rightarrow> real list" where
  "axis_points inc =
     (if 1 \<le> inc then [0]
      else map (\<lambda>j. real j * inc) [0 ..< Suc (nat \<lfloor>1 / inc\<rfloor>)])"

text \<open>
  Modelled from the spec: the \<open>k\<close>-dimensional grid of section 4.3 in lexicographic axis
  order, the first axis varying slowest.
\<close>

fun grid_points :: "real \<Rightarrow> nat \<Rightarrow> FreeParameterVector list" where
  "grid_points inc 0 = [[]]"
| "grid_points inc (Suc k) =
     concat (map (\<lambda>a. map (\<lambda>v. a # v) (grid_points inc k)) (axis_points inc))"

text \<open>
  Modelled from the spec: \<open>grid(increment)\<close> of section 4.3 for \<open>k\<close> free parameters. The
  increment must be positive; \<open>None\<close> is the refusal of any other increment.
\<close>

definition grid :: "real \<Rightarrow> nat \<Rightarrow> FreeParameterVector list option" where
  "grid inc k = (if 0 < inc then Some (grid_points inc k) else None)"

text \<open>
  Modelled from the spec: the solver of section 4.6, a kernel and the increment given at
  construction, with the manipulator it is bound to once \<open>Init\<close> has succeeded.
\<close>

record IkSolver =
  analyticKernel :: AnalyticKernel
  freeIncrement :: real
  mechanismBinding :: "Manipulator option"

text \<open>
  Modelled from the spec: \<open>init\<close> of section 4.6 and the BindingMismatch error of section 7.
  It fails when the kernel's joint count, free-parameter count or identity hash disagrees
  with the manipulator, and then leaves the solver without a binding.
\<close>

definition Init :: "IkSolver \<Rightarrow> Manipulator \<Rightarrow> bool \<times> IkSolver" where
  "Init S M =
     (if numJoints (analyticKernel S) = length (joints M)
         \<and> numFreeParameters (analyticKernel S) = redundancyCount M
         \<and> kinematicsIdentityHash (analyticKernel S) = kinematicsHash M
      then (True, S\<lparr>mechanismBinding := Some M\<rparr>)
      else (False, S\<lparr>mechanismBinding := None\<rparr>))"

text \<open>
  Modelled from the spec: the free-parameter vectors a search visits (section 4.4): the one
  the caller pins, or else every grid point in the grid's order.
\<close>

definition search_points :: "IkSolver \<Rightarrow> FreeParameterVector option \<Rightarrow> FreeParameterVector list"
  where
  "search_points S explicit =
     (case explicit of
        Some v \<Rightarrow> [v]
      | None \<Rightarrow>
          (case grid (freeIncrement S) (numFreeParameters (analyticKernel S)) of
             Some g \<Rightarrow> g
           | None \<Rightarrow> []))"

text \<open>
  Modelled from the spec: the null-space search of section 4.4: the kernel is called at every
  visited vector and all its candidates are gathered into one working set, in visiting order.
\<close>

definition NullSpaceSearch ::
  "IkSolver \<Rightarrow> real Parameterization \<Rightarrow> FreeParameterVector option \<Rightarrow> Configuration list" where
  "NullSpaceSearch S param explicit =
     concat (map (kernel_solve (analyticKernel S) param) (search_points S explicit))"

text \<open>
  Modelled from the spec: the joint-limit check of section 4.5, step 1: no joint value lies
  outside the declared range of its joint.
\<close>

definition within_limits :: "Manipulator \<Rightarrow> Configuration \<Rightarrow> bool" where
  "within_limits M q = list_all (\<lambda>(j, v). lower j \<le> v \<and> v \<le> upper j) (zip (joints M) q)"

text \<open>
  Modelled from the spec: the filter of section 4.5, steps 1 and 2: first the joint-limit
  check, then, only if the caller asked for it, the collision oracle \<open>isColliding\<close>.
\<close>

definition SolutionFilter ::
  "Manipulator \<Rightarrow> (Configuration \<Rightarrow> bool) \<Rightarrow> bool \<Rightarrow> Configuration list \<Rightarrow> Configuration list"
  where
  "SolutionFilter M isColliding checkCollision cands =
     filter (\<lambda>q. \<not> (checkCollision \<and> isColliding q)) (filter (within_limits M) cands)"

text \<open>
  Modelled from the spec: the per-joint difference of section 4.5, step 3, taken modulo the
  period for a joint that has one.
\<close>

definition angular_difference :: "Joint \<Rightarrow> real \<Rightarrow> real \<Rightarrow> real" where
  "angular_difference j a b =
     (case period j of
        None \<Rightarrow> \<bar>a - b\<bar>
      | Some P \<Rightarrow>
          if 0 < P then
            (let d = \<bar>a - b\<bar>; r = d - P * of_int \<lfloor>d / P\<rfloor> in min r (P - r))
          else \<bar>a - b\<bar>)"

text \<open>
  Modelled from the spec: the joint-space distance of section 4.5, step 3: the sum of the
  per-joint differences between a candidate and the seed.
\<close>

definition joint_distance :: "Manipulator \<Rightarrow> Configuration \<Rightarrow> Configuration \<Rightarrow> real" where
  "joint_distance M q seed =
     sum_list (map (\<lambda>(j, a, b). angular_difference j a b) (zip (joints M) (zip q seed)))"

text \<open>
  Modelled from the spec: the candidate of least distance; among equals the first in
  discovery order wins (section 9, open question).
\<close>

fun nearest :: "(Configuration \<Rightarrow> real) \<Rightarrow> Configuration list \<Rightarrow> Configuration option" where
  "nearest d [] = None"
| "nearest d (c # cs) =
     (case nearest d cs of
        None \<Rightarrow> Some c
      | Some b \<Rightarrow> if d c \<le> d b then Some c else Some b)"

text \<open>
  Modelled from the spec: the ranking of section 4.5, step 3: with a seed the nearest
  survivor, without one the first survivor; absent when nothing survives.
\<close>

definition best ::
  "Manipulator \<Rightarrow> Configuration option \<Rightarrow> Configuration list \<Rightarrow> Configuration option" where
  "best M seed surv =
     (case seed of
        None \<Rightarrow> (case surv of [] \<Rightarrow> None | c # cs \<Rightarrow> Some c)
      | Some q0 \<Rightarrow> nearest (\<lambda>q. joint_distance M q q0) surv)"

text \<open>
  Modelled from the spec: the candidates that survive filtering in one call. A solver
  without a binding produces none, and neither does a target whose type the kernel does not
  solve (section 7, InvalidParameterization).
\<close>

definition survivors ::
  "IkSolver \<Rightarrow> (Configuration \<Rightarrow> bool) \<Rightarrow> real Parameterization \<Rightarrow> FreeParameterVector option \<Rightarrow>
   bool \<Rightarrow> Configuration list" where
  "survivors S isColliding param explicit checkCollision =
     (case mechanismBinding S of
        None \<Rightarrow> []
      | Some M \<Rightarrow>
          if GetType param \<noteq> ikType (analyticKernel S) then []
          else SolutionFilter M isColliding checkCollision (NullSpaceSearch S param explicit))"

text \<open>
  Modelled from the spec: \<open>solve\<close> of section 4.6, standing for the two \<open>Solve\<close> overloads of
  the header that return one configuration: the flag returned and the configuration written
  to the result, if any. \<open>seed\<close> is the configuration \<open>q0\<close>, \<open>explicit\<close> the vector
  \<open>vFreeParameters\<close> of the overload that takes one.
\<close>

definition Solve ::
  "IkSolver \<Rightarrow> (Configuration \<Rightarrow> bool) \<Rightarrow> real Parameterization \<Rightarrow> Configuration option \<Rightarrow>
   FreeParameterVector option \<Rightarrow> bool \<Rightarrow> bool \<times> Configuration option" where
  "Solve S isColliding param seed explicit checkCollision =
     (case mechanismBinding S of
        None \<Rightarrow> (False, None)
      | Some M \<Rightarrow>
          (case best M seed (survivors S isColliding param explicit checkCollision) of
             None \<Rightarrow> (False, None)
           | Some q \<Rightarrow> (True, Some q)))"

text \<open>
  Modelled from the spec: \<open>solveAll\<close> of section 4.6, standing for the two \<open>Solve\<close> overloads
  of the header that fill \<open>qSolutions\<close>: the flag returned ("true if at least one solution
  is found") and the sequence of all survivors.
\<close>

definition SolveAll ::
  "IkSolver \<Rightarrow> (Configuration \<Rightarrow> bool) \<Rightarrow> real Parameterization \<Rightarrow>
   FreeParameterVector option \<Rightarrow> bool \<Rightarrow> bool \<times> Configuration list" where
  "SolveAll S isColliding param explicit checkCollision =
     (let r = survivors S isColliding param explicit checkCollision in (r \<noteq> [], r))"


section \<open>Concrete inputs\<close>

text \<open>
  A kernel table, a number parser and a library lookup for the factories; a target, a kernel
  with one free parameter, two manipulators, and a solver before and after binding for the
  solving contract.
\<close>

definition kernel0 :: "mechanism \<Rightarrow> kernel" where
  "kernel0 m = \<lparr>getNumFreeParameters = 1, getFreeParameters = (\<lambda>i. 2), getNumJoints = 7,
                getIKType = 1, getKinematicsHash = ''h''\<rparr>"

definition num_get0 :: num_get where
  "num_get0 v s = (if s = ''0.5'' then (1 / 2, [], True) else (v, s, False))"

definition CreateIkSolver0 :: "string \<Rightarrow> dReal \<Rightarrow> unit option \<Rightarrow> (string \<times> dReal) option" where
  "CreateIkSolver0 n f e = Some (n, f)"

definition vec0 :: "real Vector" where
  "vec0 = \<lparr>vec_x = 0, vec_y = 0, vec_z = 0, vec_w = 0\<rparr>"

definition paramA :: "real Parameterization" where
  "paramA = \<lparr>p_transform = \<lparr>rot = vec0, trans = vec0\<rparr>, p_type = Type_Transform6D\<rparr>"

definition kernelA :: AnalyticKernel where
  "kernelA =
     \<lparr>numJoints = 2, numFreeParameters = 1, ikType = Type_Transform6D,
      kinematicsIdentityHash = ''abc'',
      kernel_solve = (\<lambda>p v. case v of
                               [t] \<Rightarrow> if t = 0 then [] else [[t, 4 * t - 1], [t, 5]]
                             | _ \<Rightarrow> [])\<rparr>"

definition manipA :: Manipulator where
  "manipA =
     \<lparr>joints = [\<lparr>lower = 0, upper = 1, period = None\<rparr>,
                \<lparr>lower = - 1, upper = 2, period = None\<rparr>],
      redundancyCount = 1, kinematicsHash = ''abc''\<rparr>"

definition manipB :: Manipulator where
  "manipB =
     \<lparr>joints = [\<lparr>lower = 0, upper = 1, period = None\<rparr>],
      redundancyCount = 1, kinematicsHash = ''abc''\<rparr>"

definition solverU :: IkSolver where
  "solverU = \<lparr>analyticKernel = kernelA, freeIncrement = 1 / 2, mechanismBinding = None\<rparr>"

definition solverA :: IkSolver where
  "solverA = \<lparr>analyticKernel = kernelA, freeIncrement = 1 / 2, mechanismBinding = Some manipA\<rparr>"


section \<open>Properties of the parameterization\<close>

text \<open>
  C7. For every ray \<open>r\<close>, the parameterization built by \<open>SetRay r\<close>, and likewise the one
  built by the constructor taking a ray, holds the direction of \<open>r\<close> in the rotation slot and
  the origin of \<open>r\<close> in the translation slot, its \<open>GetType\<close> is \<open>Type_Ray4D\<close>, and \<open>GetRay\<close>
  gives back \<open>r\<close>: its position, its direction, and so the ray as a whole.
\<close>

theorem SetRay_GetRay:
  "GetRotation (SetRay r p) = dir r
   \<and> GetTranslation (SetRay r p) = pos r
   \<and> GetType (SetRay r p) = Type_Ray4D
   \<and> pos (GetRay (SetRay r p)) = pos r
   \<and> dir (GetRay (SetRay r p)) = dir r
   \<and> GetRay (SetRay r p) = r
   \<and> GetRotation (Parameterization_of_RAY r p0) = dir r
   \<and> GetTranslation (Parameterization_of_RAY r p0) = pos r
   \<and> GetType (Parameterization_of_RAY r p0) = Type_Ray4D
   \<and> GetRay (Parameterization_of_RAY r p0) = r"
  by (simp add: SetRay_def GetRay_def GetRotation_def GetTranslation_def GetType_def
      RAY_ctor_def Parameterization_of_RAY_def)

text \<open>
  C8. Whatever the parameterization held before, each setter leaves the type tag at its own
  variant: \<open>SetTransform\<close> at \<open>Type_Transform6D\<close>, \<open>SetRotation\<close> at \<open>Type_Rotation3D\<close>,
  \<open>SetTranslation\<close> at \<open>Type_Translation3D\<close>, \<open>SetDirection\<close> at \<open>Type_Direction2D\<close> and
  \<open>SetRay\<close> at \<open>Type_Ray4D\<close>.
\<close>

theorem setter_overwrites_type:
  "GetType (SetTransform t p) = Type_Transform6D
   \<and> GetType (SetRotation q p) = Type_Rotation3D
   \<and> GetType (SetTranslation v p) = Type_Translation3D
   \<and> GetType (SetDirection d p) = Type_Direction2D
   \<and> GetType (SetRay r p) = Type_Ray4D"
  by (simp add: GetType_def SetTransform_def SetRotation_def SetTranslation_def
      SetDirection_def SetRay_def)

text \<open>
  C9. \<open>SetTranslation\<close> leaves the stored rotation slot as it was, and \<open>SetRotation\<close> and
  \<open>SetDirection\<close> leave the stored translation slot as it was. Each of the three changes
  nothing but the type tag and the one slot of its variant: the resulting state is the old
  state with exactly these two fields replaced.
\<close>

theorem setter_frame:
  "GetRotation (SetTranslation v p) = GetRotation p
   \<and> GetTranslation (SetRotation q p) = GetTranslation p
   \<and> GetTranslation (SetDirection d p) = GetTranslation p
   \<and> SetTranslation v p =
       \<lparr>p_transform = \<lparr>rot = GetRotation p, trans = v\<rparr>, p_type = Type_Translation3D\<rparr>
   \<and> SetRotation q p =
       \<lparr>p_transform = \<lparr>rot = q, trans = GetTranslation p\<rparr>, p_type = Type_Rotation3D\<rparr>
   \<and> SetDirection d p =
       \<lparr>p_transform = \<lparr>rot = d, trans = GetTranslation p\<rparr>, p_type = Type_Direction2D\<rparr>"
  by (simp add: GetRotation_def GetTranslation_def SetTranslation_def SetRotation_def
      SetDirection_def)


section \<open>Properties of the plugin factories\<close>

subsection \<open>The registered names\<close>

lemma ikfastsolvers_names_eq:
  "ikfastsolvers_names PT_InverseKinematicsSolver =
     [''ikfast'', ''wam7ikfast'', ''pa10ikfast'', ''pumaikfast'', ''ikfast_pr2_head'',
      ''ikfast_pr2_head_torso'', ''ikfast_pr2_rightarm'', ''ikfast_pr2_rightarm_torso'',
      ''ikfast_pr2_leftarm'', ''ikfast_pr2_leftarm_torso'', ''ikfast_schunk_lwa3'',
      ''ikfast_katana5d'']"
  "ikfastsolvers_names PT_ProblemInstance = [''ikfast'']"
  "ikfastsolvers_names (PT_other n) = []"
  by (simp_all add: ikfastsolvers_names_def GetPluginAttributesValidated_def push_back_def)

lemma rmanipulation_names_eq:
  "rmanipulation_names PT_ProblemInstance =
     [''BaseManipulation'', ''TaskManipulation'', ''TaskCaging'', ''VisualFeedback'']"
  "rmanipulation_names PT_InverseKinematicsSolver = []"
  "rmanipulation_names (PT_other n) = []"
  by (simp_all add: rmanipulation_names_def GetPluginAttributes_def push_back_def)

lemma extract_string_fresh:
  "snd (extract_string \<lparr>buf = name, failed = False\<rparr> []) = first_word name"
  by (cases "dropWhile isspace name = []")
     (simp_all add: extract_string_def first_word_def Let_def del: dropWhile_eq_Nil_conv)

lemma extract_dReal_omitted:
  "omits_number s \<Longrightarrow> snd (extract_dReal ng s v) = v"
  by (auto simp add: omits_number_def extract_dReal_def Let_def list_all_iff)

subsection \<open>The default increment\<close>

lemma CIV_specific:
  assumes "interfacename \<in> set (ikfastsolvers_names PT_InverseKinematicsSolver)"
    and "interfacename \<noteq> ''ikfast''"
  shows "\<exists>a. fst (CreateInterfaceValidated ng CIS K PT_InverseKinematicsSolver
                    interfacename sinput env) = Some (IkFastSolver a)
             \<and> fFreeInc a = snd (extract_dReal ng sinput 0.04)"
  using assms
  by (auto simp add: ikfastsolvers_names_eq CreateInterfaceValidated_def new_IkFastSolver_def
      split: prod.split)

lemma CIV_generic:
  assumes "extract_string sinput [] = (s1, ikfastname)" and "\<not> failed s1"
  shows "fst (CreateInterfaceValidated ng CIS K PT_InverseKinematicsSolver ''ikfast'' sinput env)
         = map_option Library_IkSolver (CIS ikfastname (snd (extract_dReal ng s1 0.04)) env)"
  using assms
  by (simp add: CreateInterfaceValidated_def split: prod.split option.split)

text \<open>
  C6. A request for an inverse-kinematics solver whose key omits the increment is served
  with the default increment \<open>0.04\<close>, in both forms of the key. For a mechanism-specific
  name (a registered solver name other than \<open>ikfast\<close>) with nothing but white space left
  in the stream, the factory constructs an \<open>IkFastSolver\<close> whose increment is \<open>0.04\<close>. For
  the generic name \<open>ikfast\<close>, when the stream holds the name of a library solver and
  nothing but white space after it, the factory returns what \<open>CreateIkSolver\<close> makes of that
  name and the increment \<open>0.04\<close>.
\<close>

theorem default_free_increment:
  "(interfacename \<in> set (ikfastsolvers_names PT_InverseKinematicsSolver) \<longrightarrow>
    interfacename \<noteq> ''ikfast'' \<longrightarrow> omits_number sinput \<longrightarrow>
      (\<exists>a. fst (CreateInterfaceValidated ng CIS K PT_InverseKinematicsSolver
                  interfacename sinput env) = Some (IkFastSolver a)
           \<and> fFreeInc a = 0.04))
   \<and> (extract_string sinput [] = (s1, ikfastname) \<longrightarrow> \<not> failed s1 \<longrightarrow> omits_number s1 \<longrightarrow>
        fst (CreateInterfaceValidated ng CIS K PT_InverseKinematicsSolver ''ikfast'' sinput env)
          = map_option Library_IkSolver (CIS ikfastname 0.04 env))"
proof (intro conjI impI)
  assume "interfacename \<in> set (ikfastsolvers_names PT_InverseKinematicsSolver)"
    and "interfacename \<noteq> ''ikfast''" and "omits_number sinput"
  then show "\<exists>a. fst (CreateInterfaceValidated ng CIS K PT_InverseKinematicsSolver
                  interfacename sinput env) = Some (IkFastSolver a) \<and> fFreeInc a = 0.04"
    using CIV_specific [of interfacename ng CIS K sinput env]
      extract_dReal_omitted [of sinput ng "0.04"] by metis
next
  assume "extract_string sinput [] = (s1, ikfastname)" and "\<not> failed s1" and "omits_number s1"
  then show "fst (CreateInterfaceValidated ng CIS K PT_InverseKinematicsSolver ''ikfast''
                   sinput env) = map_option Library_IkSolver (CIS ikfastname 0.04 env)"
    using CIV_generic [of sinput s1 ikfastname ng CIS K env]
      extract_dReal_omitted [of s1 ng "0.04"] by metis
qed

text \<open>
  The theorem at the keys \<open>pumaikfast\<close> and \<open>ikfast puma\<close>, neither with a number.
\<close>

theorem default_free_increment_witness:
  "''pumaikfast'' \<in> set (ikfastsolvers_names PT_InverseKinematicsSolver)
   \<and> omits_number \<lparr>buf = '' '', failed = False\<rparr>
   \<and> (\<exists>a. fst (CreateInterfaceValidated num_get0 CreateIkSolver0 kernel0
                PT_InverseKinematicsSolver ''pumaikfast'' \<lparr>buf = '' '', failed = False\<rparr> None)
              = Some (IkFastSolver a) \<and> fFreeInc a = 0.04)
   \<and> extract_string \<lparr>buf = '' puma'', failed = False\<rparr> []
       = (\<lparr>buf = [], failed = False\<rparr>, ''puma'')
   \<and> omits_number \<lparr>buf = [], failed = False\<rparr>
   \<and> fst (CreateInterfaceValidated num_get0 CreateIkSolver0 kernel0
            PT_InverseKinematicsSolver ''ikfast'' \<lparr>buf = '' puma'', failed = False\<rparr> None)
       = Some (Library_IkSolver (''puma'', 0.04))"
proof -
  have n: "''pumaikfast'' \<in> set (ikfastsolvers_names PT_InverseKinematicsSolver)"
    by (simp add: ikfastsolvers_names_def GetPluginAttributesValidated_def push_back_def)
  have o1: "omits_number \<lparr>buf = '' '', failed = False\<rparr>"
    by (simp add: omits_number_def isspace_def)
  have e: "extract_string \<lparr>buf = '' puma'', failed = False\<rparr> []
            = (\<lparr>buf = [], failed = False\<rparr>, ''puma'')"
    by (simp add: extract_string_def isspace_def)
  have o2: "omits_number \<lparr>buf = [], failed = False\<rparr>"
    by (simp add: omits_number_def)
  show ?thesis
    using n o1 e o2
      default_free_increment [where interfacename = "''pumaikfast''"
        and sinput = "\<lparr>buf = '' '', failed = False\<rparr>"
        and ng = num_get0 and CIS = CreateIkSolver0 and K = kernel0 and env = None]
      default_free_increment [where interfacename = "''pumaikfast''"
        and sinput = "\<lparr>buf = '' puma'', failed = False\<rparr>"
        and ?s1.0 = "\<lparr>buf = [], failed = False\<rparr>" and ikfastname = "''puma''"
        and ng = num_get0 and CIS = CreateIkSolver0 and K = kernel0 and env = None]
    by (simp add: CreateIkSolver0_def)
qed

subsection \<open>Names that are not registered\<close>

lemma CIV_unknown:
  "interfacename \<notin> set (ikfastsolvers_names type) \<Longrightarrow>
   fst (CreateInterfaceValidated ng CIS K type interfacename sinput env) = None"
  by (cases type)
     (simp_all add: ikfastsolvers_names_eq CreateInterfaceValidated_def split: prod.split)

lemma CI_unknown:
  "pluginhash = RaveGetInterfaceHash type \<Longrightarrow>
   \<forall>r \<in> set (rmanipulation_names type). \<not> request_matches name r \<Longrightarrow>
   CreateInterface RaveGetInterfaceHash type name pluginhash env = Inr None"
  by (cases type)
     (simp_all add: rmanipulation_names_eq CreateInterface_def request_matches_def
        tolower_def extract_string_fresh Let_def)

text \<open>
  C10. For every interface kind and every requested name that matches none of the names the
  plugin registers for that kind, the factory returns the null interface pointer: it neither
  throws nor constructs an object. For \<open>CreateInterfaceValidated\<close> of \<open>ikfastsolvers\<close> a
  name matches a registered name when it is equal to it. For \<open>CreateInterface\<close> of
  \<open>rmanipulation\<close>, once the plugin hash is the expected one, a request matches a
  registered name in the factory's own sense: the first word of the request and the
  registered name are equal when both are lower-cased (\<open>request_matches\<close>).
\<close>

theorem unregistered_name_gives_null:
  "(interfacename \<notin> set (ikfastsolvers_names type) \<longrightarrow>
      fst (CreateInterfaceValidated ng CIS K type interfacename sinput env) = None)
   \<and> (pluginhash = RaveGetInterfaceHash type \<longrightarrow>
      (\<forall>r \<in> set (rmanipulation_names type). \<not> request_matches name r) \<longrightarrow>
      CreateInterface RaveGetInterfaceHash type name pluginhash env' = Inr None)"
  using CIV_unknown [of interfacename type ng CIS K sinput env]
    CI_unknown [of pluginhash RaveGetInterfaceHash type name env']
  by blast

text \<open>
  The theorem at the name \<open>pumaikfast\<close> asked of \<open>ikfastsolvers\<close> as a problem instance,
  and at the request \<open>TaskCage now\<close> asked of \<open>rmanipulation\<close>.
\<close>

theorem unregistered_name_gives_null_witness:
  "''pumaikfast'' \<notin> set (ikfastsolvers_names PT_ProblemInstance)
   \<and> fst (CreateInterfaceValidated num_get0 CreateIkSolver0 kernel0 PT_ProblemInstance
            ''pumaikfast'' \<lparr>buf = '' 0.5'', failed = False\<rparr> (Some ())) = None
   \<and> list_all (\<lambda>r. \<not> request_matches ''TaskCage now'' r) (rmanipulation_names PT_ProblemInstance)
   \<and> (CreateInterface (\<lambda>t. ''h'') PT_ProblemInstance ''TaskCage now'' ''h'' (Some ())
        :: exn + (unit, unit) Interface option) = Inr None"
proof -
  have n: "''pumaikfast'' \<notin> set (ikfastsolvers_names PT_ProblemInstance)"
    by (simp add: ikfastsolvers_names_def GetPluginAttributesValidated_def push_back_def)
  have m: "list_all (\<lambda>r. \<not> request_matches ''TaskCage now'' r)
             (rmanipulation_names PT_ProblemInstance)"
    by (simp add: rmanipulation_names_def GetPluginAttributes_def push_back_def
        request_matches_def first_word_def isspace_def tolower_def)
  show ?thesis
    using n m
      unregistered_name_gives_null [where interfacename = "''pumaikfast''"
        and type = PT_ProblemInstance and ng = num_get0 and CIS = CreateIkSolver0
        and K = kernel0 and sinput = "\<lparr>buf = '' 0.5'', failed = False\<rparr>"
        and env = "Some ()" and pluginhash = "''h''" and RaveGetInterfaceHash = "\<lambda>t. ''h''"
        and name = "''TaskCage now''" and env' = "Some ()"]
    by (simp add: list_all_iff)
qed


section \<open>Properties of the solving contract\<close>

subsection \<open>Ranking and filtering\<close>

lemma nearest_mem: "nearest d cs = Some q \<Longrightarrow> q \<in> set cs"
  by (induction cs arbitrary: q) (auto split: option.splits if_splits)

lemma nearest_None: "nearest d cs = None \<longleftrightarrow> cs = []"
  by (cases cs) (auto split: option.splits)

lemma best_mem: "best M seed cs = Some q \<Longrightarrow> q \<in> set cs"
  by (auto simp add: best_def nearest_mem split: option.splits list.splits)

lemma best_None: "best M seed cs = None \<longleftrightarrow> cs = []"
  by (auto simp add: best_def nearest_None split: option.splits list.splits)

lemma best_Nil: "best M seed [] = None"
  by (simp add: best_None)

lemma survivors_no_branches:
  "\<forall>v \<in> set (search_points S explicit). kernel_solve (analyticKernel S) param v = [] \<Longrightarrow>
   survivors S isColliding param explicit checkCollision = []"
  by (simp add: survivors_def SolutionFilter_def NullSpaceSearch_def split: option.splits)

lemma survivors_sub:
  "mechanismBinding S = Some M \<Longrightarrow>
   q \<in> set (survivors S isColliding param explicit checkCollision) \<Longrightarrow>
   within_limits M q \<and> q \<in> set (NullSpaceSearch S param explicit)
   \<and> \<not> (checkCollision \<and> isColliding q)"
  by (auto simp add: survivors_def SolutionFilter_def split: if_splits)

lemma Solve_result:
  "snd (Solve S isColliding param seed explicit checkCollision) = Some q \<Longrightarrow>
   q \<in> set (survivors S isColliding param explicit checkCollision)"
  by (auto simp add: Solve_def best_mem split: option.splits)

lemma Solve_empty:
  "survivors S isColliding param explicit checkCollision = [] \<Longrightarrow>
   Solve S isColliding param seed explicit checkCollision = (False, None)"
  by (simp add: Solve_def best_Nil split: option.splits)

subsection \<open>The concrete solver\<close>

lemma search_points_A: "search_points solverA None = [[0], [1 / 2], [1]]"
  by (simp add: solverA_def search_points_def grid_def kernelA_def axis_points_def upt_rec)

lemma NullSpaceSearch_A:
  "NullSpaceSearch solverA paramA None = [[1 / 2, 1], [1 / 2, 5], [1, 3], [1, 5]]"
  by (simp add: NullSpaceSearch_def search_points_A) (simp add: solverA_def kernelA_def)

lemma within_A:
  "within_limits manipA [1 / 2, 1]" "\<not> within_limits manipA [1 / 2, 5]"
  "\<not> within_limits manipA [1, 3]" "\<not> within_limits manipA [1, 5]"
  by (simp_all add: within_limits_def manipA_def)

lemma solverA_fields:
  "mechanismBinding solverA = Some manipA" "analyticKernel solverA = kernelA"
  "ikType kernelA = Type_Transform6D" "GetType paramA = Type_Transform6D"
  by (simp_all add: solverA_def kernelA_def paramA_def GetType_def)

lemma survivors_A:
  "survivors solverA (\<lambda>q. False) paramA None True = [[1 / 2, 1]]"
  "survivors solverA (\<lambda>q. True) paramA None True = []"
  "survivors solverA (\<lambda>q. True) paramA None False = [[1 / 2, 1]]"
  by (simp_all add: survivors_def solverA_fields SolutionFilter_def NullSpaceSearch_A within_A)

lemma Solve_A:
  "Solve solverA (\<lambda>q. False) paramA (Some [0, 0]) None True = (True, Some [1 / 2, 1])"
  by (simp add: Solve_def solverA_fields survivors_A best_def)

lemma SolveAll_A:
  "SolveAll solverA (\<lambda>q. False) paramA None True = (True, [[1 / 2, 1]])"
  by (simp add: SolveAll_def survivors_A)

subsection \<open>No solution found\<close>

text \<open>
  C1. For every target, seed, free-parameter vector and collision flag: when no candidate
  survives filtering, and in particular when the kernel returns no branch at any
  free-parameter vector the search visits, \<open>Solve\<close> returns false with no result and the
  variant returning all solutions returns false with the empty sequence. Both are ordinary
  return values; no error is signalled.
\<close>

theorem no_survivor_is_absent_result:
  assumes "survivors S isColliding param explicit checkCollision = []
           \<or> (\<forall>v \<in> set (search_points S explicit).
                 kernel_solve (analyticKernel S) param v = [])"
  shows "Solve S isColliding param seed explicit checkCollision = (False, None)
         \<and> SolveAll S isColliding param explicit checkCollision = (False, [])"
proof -
  from assms have e: "survivors S isColliding param explicit checkCollision = []"
    using survivors_no_branches by blast
  then show ?thesis
    by (simp add: Solve_empty SolveAll_def)
qed

text \<open>
  The theorem at a search whose four candidates are all rejected by the collision oracle,
  and at a pinned free value for which the kernel has no branch.
\<close>

theorem no_survivor_is_absent_result_witness:
  "survivors solverA (\<lambda>q. True) paramA None True = []
   \<and> NullSpaceSearch solverA paramA None \<noteq> []
   \<and> Solve solverA (\<lambda>q. True) paramA (Some [0, 0]) None True = (False, None)
   \<and> SolveAll solverA (\<lambda>q. True) paramA None True = (False, [])
   \<and> list_all (\<lambda>v. kernel_solve (analyticKernel solverA) paramA v = [])
        (search_points solverA (Some [0]))
   \<and> Solve solverA (\<lambda>q. False) paramA None (Some [0]) False = (False, None)
   \<and> SolveAll solverA (\<lambda>q. False) paramA (Some [0]) False = (False, [])"
proof -
  have a: "survivors solverA (\<lambda>q. True) paramA None True = []"
    by (rule survivors_A)
  have b: "\<forall>v \<in> set (search_points solverA (Some [0])).
             kernel_solve (analyticKernel solverA) paramA v = []"
    by (simp add: search_points_def solverA_fields) (simp add: kernelA_def)
  have c: "NullSpaceSearch solverA paramA None \<noteq> []"
    by (simp add: NullSpaceSearch_A)
  show ?thesis
    using a b c
      no_survivor_is_absent_result [where S = solverA and isColliding = "\<lambda>q. True"
        and param = paramA and explicit = None and checkCollision = True
        and seed = "Some [0, 0]"]
      no_survivor_is_absent_result [where S = solverA and isColliding = "\<lambda>q. False"
        and param = paramA and explicit = "Some [0]" and checkCollision = False
        and seed = None]
    by (simp add: list_all_iff)
qed

subsection \<open>Joint limits\<close>

text \<open>
  C2. For a solver bound to a manipulator \<open>M\<close>: every configuration that \<open>Solve\<close> or the
  variant returning all solutions returns has all its joint values within the declared
  limits of \<open>M\<close> and is one of the candidates the kernel produced, unchanged; a candidate
  with a joint value outside its declared range is returned by neither (it is discarded,
  not clamped).
\<close>

theorem returned_within_limits:
  assumes "mechanismBinding S = Some M"
  shows "(\<forall>q \<in> set (snd (SolveAll S isColliding param explicit checkCollision)).
            within_limits M q \<and> q \<in> set (NullSpaceSearch S param explicit))
         \<and> (\<forall>q. snd (Solve S isColliding param seed explicit checkCollision) = Some q \<longrightarrow>
            within_limits M q \<and> q \<in> set (NullSpaceSearch S param explicit))
         \<and> (\<forall>c \<in> set (NullSpaceSearch S param explicit). \<not> within_limits M c \<longrightarrow>
            c \<notin> set (snd (SolveAll S isColliding param explicit checkCollision))
            \<and> snd (Solve S isColliding param seed explicit checkCollision) \<noteq> Some c)"
proof -
  have a: "snd (SolveAll S isColliding param explicit checkCollision)
           = survivors S isColliding param explicit checkCollision"
    by (simp add: SolveAll_def Let_def)
  have s: "\<And>q. q \<in> set (survivors S isColliding param explicit checkCollision) \<Longrightarrow>
             within_limits M q \<and> q \<in> set (NullSpaceSearch S param explicit)"
    using survivors_sub [OF assms] by blast
  have r: "\<And>q. snd (Solve S isColliding param seed explicit checkCollision) = Some q \<Longrightarrow>
             q \<in> set (survivors S isColliding param explicit checkCollision)"
    by (rule Solve_result)
  show ?thesis
    unfolding a using s r by blast
qed

text \<open>
  The theorem at a grid search with four candidates, of which only \<open>[1/2, 1]\<close> is within
  the limits.
\<close>

theorem returned_within_limits_witness:
  "mechanismBinding solverA = Some manipA
   \<and> NullSpaceSearch solverA paramA None = [[1 / 2, 1], [1 / 2, 5], [1, 3], [1, 5]]
   \<and> SolveAll solverA (\<lambda>q. False) paramA None True = (True, [[1 / 2, 1]])
   \<and> Solve solverA (\<lambda>q. False) paramA (Some [0, 0]) None True = (True, Some [1 / 2, 1])
   \<and> within_limits manipA [1 / 2, 1]
   \<and> \<not> within_limits manipA [1 / 2, 5]
   \<and> [1 / 2, 5] \<notin> set (snd (SolveAll solverA (\<lambda>q. False) paramA None True))
   \<and> snd (Solve solverA (\<lambda>q. False) paramA (Some [0, 0]) None True) \<noteq> Some [1 / 2, 5]"
proof -
  have m: "mechanismBinding solverA = Some manipA"
    by (rule solverA_fields)
  have out: "\<not> within_limits manipA [1 / 2, 5]"
    by (rule within_A)
  have c: "[1 / 2, 5] \<in> set (NullSpaceSearch solverA paramA None)"
    by (simp add: NullSpaceSearch_A)
  from returned_within_limits [OF m, where isColliding = "\<lambda>q. False" and param = paramA
      and explicit = None and checkCollision = True and seed = "Some [0, 0]"]
  have "within_limits manipA [1 / 2, 1]"
    and "[1 / 2, 5] \<notin> set (snd (SolveAll solverA (\<lambda>q. False) paramA None True))
         \<and> snd (Solve solverA (\<lambda>q. False) paramA (Some [0, 0]) None True) \<noteq> Some [1 / 2, 5]"
    using out c by (simp_all add: SolveAll_A)
  then show ?thesis
    using m out by (simp add: NullSpaceSearch_A SolveAll_A Solve_A)
qed

subsection \<open>Binding mismatch\<close>

text \<open>
  C3. \<open>Init\<close> returns failure whenever the kernel's number of joints differs from the
  manipulator's controllable joint count, or its number of free parameters differs from the
  manipulator's redundancy count, or its kinematics identity hash differs from the
  manipulator's hash. The solver is then left without a binding, and every \<open>Solve\<close> on it
  finds nothing.
\<close>

theorem Init_mismatch_fails:
  assumes "numJoints (analyticKernel S) \<noteq> length (joints M)
           \<or> numFreeParameters (analyticKernel S) \<noteq> redundancyCount M
           \<or> kinematicsIdentityHash (analyticKernel S) \<noteq> kinematicsHash M"
  shows "fst (Init S M) = False
         \<and> mechanismBinding (snd (Init S M)) = None
         \<and> Solve (snd (Init S M)) isColliding param seed explicit checkCollision = (False, None)
         \<and> SolveAll (snd (Init S M)) isColliding param explicit checkCollision = (False, [])"
proof -
  from assms have i: "Init S M = (False, S\<lparr>mechanismBinding := None\<rparr>)"
    by (auto simp add: Init_def)
  then show ?thesis
    by (simp add: Solve_def SolveAll_def survivors_def)
qed

text \<open>
  The theorem at a kernel for two joints and a manipulator with one; the same kernel binds
  to the manipulator with two joints and then solves.
\<close>

theorem Init_mismatch_fails_witness:
  "numJoints (analyticKernel solverA) \<noteq> length (joints manipB)
   \<and> fst (Init solverA manipB) = False
   \<and> mechanismBinding (snd (Init solverA manipB)) = None
   \<and> Solve (snd (Init solverA manipB)) (\<lambda>q. False) paramA (Some [0, 0]) None True
       = (False, None)
   \<and> SolveAll (snd (Init solverA manipB)) (\<lambda>q. False) paramA None True = (False, [])
   \<and> Init solverU manipA = (True, solverA)
   \<and> Solve solverA (\<lambda>q. False) paramA (Some [0, 0]) None True = (True, Some [1 / 2, 1])"
proof -
  have d: "numJoints (analyticKernel solverA) \<noteq> length (joints manipB)"
    by (simp add: solverA_fields) (simp add: kernelA_def manipB_def)
  have ok: "Init solverU manipA = (True, solverA)"
    by (simp add: Init_def solverU_def solverA_def kernelA_def manipA_def)
  show ?thesis
    using d ok Solve_A
      Init_mismatch_fails [where S = solverA and M = manipB and isColliding = "\<lambda>q. False"
        and param = paramA and seed = "Some [0, 0]" and explicit = None
        and checkCollision = True]
    by simp
qed

end
